theory Spec2Isabelle
  imports Main "HOL-Library.AList" "HOL-Library.List_Lexorder"
begin

section \<open>Python values, dictionaries and exceptions\<close>

text \<open>
  A Python \<^verbatim>\<open>str\<close> is a sequence of Unicode code points. The sources hold Cyrillic
  literals, so a string is modelled as the list of its code points; \<open>ascii\<close> turns
  an ASCII literal into that form.
\<close>

type_synonym pystr = "nat list"

definition ascii :: "string \<Rightarrow> pystr" where
  "ascii s = map of_char s"

datatype pyval =
    PNone
  | PBool bool
  | PInt int
  | PStr pystr
  | PList "pyval list"
  | PDict "(pystr \<times> pyval) list"

text \<open>
  A \<^verbatim>\<open>dict\<close> with string keys keeps its insertion order: an association list,
  read with \<open>map_of\<close> and written with \<open>AList.update\<close> (an existing key keeps its
  place, a new one goes last).
\<close>

type_synonym pydict = "(pystr \<times> pyval) list"

text \<open>
  The exceptions that \<^verbatim>\<open>except Exception\<close> catches. \<open>OtherError n\<close> stands for any
  other subclass of \<^verbatim>\<open>Exception\<close>, such as a database driver's or a module's own.
\<close>

datatype exn =
    KeyError pystr
  | ValueError
  | AttributeError
  | TypeError
  | OverflowError
  | OtherError nat

text \<open>Truth value testing, as \<^verbatim>\<open>if x:\<close> does it.\<close>

fun truthy :: "pyval \<Rightarrow> bool" where
  "truthy PNone = False"
| "truthy (PBool b) = b"
| "truthy (PInt i) = (i \<noteq> 0)"
| "truthy (PStr s) = (s \<noteq> [])"
| "truthy (PList xs) = (xs \<noteq> [])"
| "truthy (PDict d) = (d \<noteq> [])"

text \<open>\<^verbatim>\<open>d.get(k)\<close> gives \<^verbatim>\<open>None\<close> for a missing key, \<^verbatim>\<open>d.get(k, default)\<close> the default,
  and \<^verbatim>\<open>d[k]\<close> raises \<^verbatim>\<open>KeyError\<close>.\<close>

definition dict_get :: "pydict \<Rightarrow> pystr \<Rightarrow> pyval" where
  "dict_get d k = (case map_of d k of None \<Rightarrow> PNone | Some v \<Rightarrow> v)"

definition dict_get_default :: "pydict \<Rightarrow> pystr \<Rightarrow> pyval \<Rightarrow> pyval" where
  "dict_get_default d k dflt = (case map_of d k of None \<Rightarrow> dflt | Some v \<Rightarrow> v)"

definition dict_item :: "pydict \<Rightarrow> pystr \<Rightarrow> exn + pyval" where
  "dict_item d k = (case map_of d k of None \<Rightarrow> Inl (KeyError k) | Some v \<Rightarrow> Inr v)"

text \<open>The substring test \<^verbatim>\<open>needle in haystack\<close> on two strings.\<close>

fun starts_with :: "'a list \<Rightarrow> 'a list \<Rightarrow> bool" where
  "starts_with [] ys = True"
| "starts_with (x # xs) [] = False"
| "starts_with (x # xs) (y # ys) = (x = y \<and> starts_with xs ys)"

fun str_contains :: "'a list \<Rightarrow> 'a list \<Rightarrow> bool" where
  "str_contains needle [] = (needle = [])"
| "str_contains needle (y # ys) = (starts_with needle (y # ys) \<or> str_contains needle ys)"

text \<open>
  \<^verbatim>\<open>"literal" in x\<close> for a value \<open>x\<close> of any type: a substring test on a string,
  membership on a list, key membership on a dict, \<^verbatim>\<open>TypeError\<close> otherwise.
\<close>

fun str_in :: "pystr \<Rightarrow> pyval \<Rightarrow> exn + bool" where
  "str_in needle (PStr s) = Inr (str_contains needle s)"
| "str_in needle (PList xs) = Inr (PStr needle \<in> set xs)"
| "str_in needle (PDict d) = Inr (needle \<in> set (map fst d))"
| "str_in needle PNone = Inl TypeError"
| "str_in needle (PBool b) = Inl TypeError"
| "str_in needle (PInt i) = Inl TypeError"

text \<open>The operand of an integer subtraction: \<^verbatim>\<open>bool\<close> is a subclass of \<^verbatim>\<open>int\<close>.\<close>

fun as_int :: "pyval \<Rightarrow> exn + int" where
  "as_int (PInt i) = Inr i"
| "as_int (PBool b) = Inr (if b then 1 else 0)"
| "as_int PNone = Inl TypeError"
| "as_int (PStr s) = Inl TypeError"
| "as_int (PList xs) = Inl TypeError"
| "as_int (PDict d) = Inl TypeError"

text \<open>
  \<^verbatim>\<open>x.lower()\<close>: only a string has the method. Unicode lower-casing itself is the
  interpreter's table, taken as the parameter \<open>lower\<close>.
\<close>

fun call_lower :: "(pystr \<Rightarrow> pystr) \<Rightarrow> pyval \<Rightarrow> exn + pystr" where
  "call_lower lower (PStr s) = Inr (lower s)"
| "call_lower lower PNone = Inl AttributeError"
| "call_lower lower (PBool b) = Inl AttributeError"
| "call_lower lower (PInt i) = Inl AttributeError"
| "call_lower lower (PList xs) = Inl AttributeError"
| "call_lower lower (PDict d) = Inl AttributeError"

section \<open>The database session of a request (main_app.py, get_db_session)\<close>

text \<open>
  The session is the persistence collaborator's object. What the application does to
  it is the sequence of calls it makes, oldest first. A call that raises is still a
  call that was made; whether \<^verbatim>\<open>commit\<close> or \<^verbatim>\<open>rollback\<close> raises is the database's
  answer, a parameter of the model.
\<close>

datatype db_call = Execute | Add | Commit | Rollback | Close

text \<open>
  \<^verbatim>\<open>
  @asynccontextmanager
  async def get_db_session(self):
      session = self.Session()
      try:
          yield session
      except Exception:
          await session.rollback()
          raise
      finally:
          await session.close()
  \<close>
  The argument is what the body of the \<^verbatim>\<open>async with\<close> block did on a fresh session:
  its outcome (\<open>Inl\<close>: the exception that left the block), the calls it made and the
  rest of the state it changed. \<open>rollback_raises\<close> is the exception \<^verbatim>\<open>rollback\<close>
  raises, if any; it then replaces the one being handled.
\<close>

definition get_db_session ::
  "exn option \<Rightarrow> (exn + 'a) \<times> db_call list \<times> 's \<Rightarrow> (exn + 'a) \<times> db_call list \<times> 's" where
  "get_db_session rollback_raises body =
     (case body of
        (Inr v, calls, st) \<Rightarrow> (Inr v, calls @ [Close], st)
      | (Inl e, calls, st) \<Rightarrow>
          (case rollback_raises of
             None \<Rightarrow> (Inl e, calls @ [Rollback, Close], st)
           | Some e' \<Rightarrow> (Inl e', calls @ [Rollback, Close], st)))"

section \<open>Registration and the initial roles (main_app.py)\<close>

text \<open>The members of \<^verbatim>\<open>UserRole\<close> that main_app.py names.\<close>

datatype UserRole = MUSLIM | STUDENT | TEACHER | INVESTOR | HOST_FAMILY | ADMIN

definition teacher_words :: "pystr list" where
  "teacher_words =
     [ascii ''teacher'',
      [1091, 1095, 1080, 1090, 1077, 1083, 1100],
      [1087, 1088, 1077, 1087, 1086, 1076, 1072, 1074, 1072, 1090, 1077, 1083, 1100]]"

definition investor_words :: "pystr list" where
  "investor_words =
     [ascii ''investor'',
      [1080, 1085, 1074, 1077, 1089, 1090, 1086, 1088],
      [1092, 1080, 1085, 1072, 1085, 1089]]"

text \<open>
  \<^verbatim>\<open>
  def _detect_initial_roles(self, user_data: Dict) -> List[UserRole]:
      roles = [UserRole.MUSLIM]
      age = datetime.now().year - user_data['birth_year']
      if 18 <= age <= 30:
          roles.append(UserRole.STUDENT)
      profession = user_data.get('profession', '').lower()
      if any(word in profession for word in ['teacher', ...]):
          roles.append(UserRole.TEACHER)
      if any(word in profession for word in ['investor', ...]):
          roles.append(UserRole.INVESTOR)
      if user_data.get('family_status') == 'family':
          roles.append(UserRole.HOST_FAMILY)
      if "admin" in user_data['email']:
          roles.append(UserRole.ADMIN)
      return roles
  \<close>
  \<open>now_year\<close> is \<^verbatim>\<open>datetime.now().year\<close>.
\<close>

definition detect_initial_roles ::
  "(pystr \<Rightarrow> pystr) \<Rightarrow> int \<Rightarrow> pydict \<Rightarrow> exn + UserRole list" where
  "detect_initial_roles lower now_year user_data =
     (case dict_item user_data (ascii ''birth_year'') of
        Inl e \<Rightarrow> Inl e
      | Inr born \<Rightarrow>
     (case as_int born of
        Inl e \<Rightarrow> Inl e
      | Inr y \<Rightarrow>
     (case call_lower lower (dict_get_default user_data (ascii ''profession'') (PStr [])) of
        Inl e \<Rightarrow> Inl e
      | Inr profession \<Rightarrow>
     (case dict_item user_data (ascii ''email'') of
        Inl e \<Rightarrow> Inl e
      | Inr mail \<Rightarrow>
     (case str_in (ascii ''admin'') mail of
        Inl e \<Rightarrow> Inl e
      | Inr is_admin \<Rightarrow>
          Inr ([MUSLIM]
             @ (if 18 \<le> now_year - y \<and> now_year - y \<le> 30 then [STUDENT] else [])
             @ (if list_ex (\<lambda>word. str_contains word profession) teacher_words
                then [TEACHER] else [])
             @ (if list_ex (\<lambda>word. str_contains word profession) investor_words
                then [INVESTOR] else [])
             @ (if dict_get user_data (ascii ''family_status'') = PStr (ascii ''family'')
                then [HOST_FAMILY] else [])
             @ (if is_admin then [ADMIN] else [])))))))"

text \<open>The \<^verbatim>\<open>MubarakUser\<close> that \<^verbatim>\<open>register_user\<close> builds, with the fields it passes.\<close>

record MubarakUser =
  user_id :: pystr
  wallet_address :: pyval
  email :: pyval
  phone :: pyval
  full_name :: pyval
  birth_year :: pyval
  gender :: pyval
  location :: pyval
  roles :: "UserRole list"

text \<open>
  What \<^verbatim>\<open>register_user\<close> gets from outside itself: the clock (the year read by
  \<^verbatim>\<open>_detect_initial_roles\<close> and the two timestamps hashed), \<^verbatim>\<open>str()\<close> and
  \<^verbatim>\<open>hashlib.sha256(...).hexdigest()\<close>, the database's answer to \<^verbatim>\<open>commit\<close> and
  \<^verbatim>\<open>rollback\<close>, the modules' \<^verbatim>\<open>initialize\<close> (the loop over \<^verbatim>\<open>self.modules\<close>, whose classes
  are not part of these sources) and \<^verbatim>\<open>_generate_welcome_package\<close>, which calls methods
  of the \<^verbatim>\<open>MubarakUser\<close> dataclass.
\<close>

record reg_env =
  now_year :: int
  now_iso :: pystr
  now_iso_later :: pystr
  str_of :: "pyval \<Rightarrow> pystr"
  str_lower :: "pystr \<Rightarrow> pystr"
  sha256_hexdigest :: "pystr \<Rightarrow> pystr"
  commit_raises :: "exn option"
  rollback_raises :: "exn option"
  initialize_modules :: "MubarakUser \<Rightarrow> exn + pydict"
  generate_welcome_package :: "MubarakUser \<Rightarrow> exn + pyval"

text \<open>
  The arguments of the \<^verbatim>\<open>MubarakUser(...)\<close> call, evaluated left to right; the first
  missing key raises \<^verbatim>\<open>KeyError\<close>.
\<close>

definition build_user :: "reg_env \<Rightarrow> pydict \<Rightarrow> pystr \<Rightarrow> exn + MubarakUser" where
  "build_user env user_data uid =
     (case dict_item user_data (ascii ''email'') of Inl e \<Rightarrow> Inl e | Inr v_email \<Rightarrow>
     (case dict_item user_data (ascii ''phone'') of Inl e \<Rightarrow> Inl e | Inr v_phone \<Rightarrow>
     (case dict_item user_data (ascii ''full_name'') of Inl e \<Rightarrow> Inl e | Inr v_name \<Rightarrow>
     (case dict_item user_data (ascii ''birth_year'') of Inl e \<Rightarrow> Inl e | Inr v_born \<Rightarrow>
     (case dict_item user_data (ascii ''gender'') of Inl e \<Rightarrow> Inl e | Inr v_gender \<Rightarrow>
     (case dict_item user_data (ascii ''location'') of Inl e \<Rightarrow> Inl e | Inr v_location \<Rightarrow>
     (case detect_initial_roles (str_lower env) (now_year env) user_data of
        Inl e \<Rightarrow> Inl e
      | Inr rs \<Rightarrow>
          Inr \<lparr>user_id = uid,
               wallet_address = dict_get_default user_data (ascii ''wallet_address'') (PStr []),
               email = v_email, phone = v_phone, full_name = v_name, birth_year = v_born,
               gender = v_gender, location = v_location, roles = rs\<rparr>)))))))"

text \<open>
  The result of \<^verbatim>\<open>register_user\<close>: \<open>Registered uid user api_key\<close> stands for
  \<^verbatim>\<open>(True, user_id, {"user": asdict(user), "api_key": api_key, ...})\<close> and
  \<open>Rejected e\<close> for \<^verbatim>\<open>(False, str(e), {})\<close>, the answer of the \<^verbatim>\<open>except Exception\<close>
  clause that wraps the whole body.
\<close>

datatype registration = Registered pystr MubarakUser pystr | Rejected exn

text \<open>
  \<^verbatim>\<open>
  async def register_user(self, user_data):
      try:
          user_id = hashlib.sha256(f"{user_data['email']}{now}".encode()).hexdigest()[:12]
          user = MubarakUser(user_id=user_id, ..., roles=self._detect_initial_roles(user_data))
          api_key = hashlib.sha256(f"{user_id}{now}".encode()).hexdigest()
          async with self.get_db_session() as db_session:
              db_session.add(new_user_db)
              await db_session.commit()
          ... module.initialize(user) for every module ...
          welcome_package = await self._generate_welcome_package(user)
          return True, user_id, {"user": asdict(user), "api_key": api_key, ...}
      except Exception as e:
          return False, str(e), {}
  \<close>
  The second component is the calls made on the database session, \<open>None\<close> when the
  function returned before opening one. The entry written to \<^verbatim>\<open>self.sessions\<close> is not
  part of the result and is left out.
\<close>

definition register_user :: "reg_env \<Rightarrow> pydict \<Rightarrow> registration \<times> db_call list option" where
  "register_user env user_data =
     (case dict_item user_data (ascii ''email'') of
        Inl e \<Rightarrow> (Rejected e, None)
      | Inr v_email \<Rightarrow>
     (let uid = take 12 (sha256_hexdigest env (str_of env v_email @ now_iso env)) in
      case build_user env user_data uid of
        Inl e \<Rightarrow> (Rejected e, None)
      | Inr user \<Rightarrow>
     (let api_key = sha256_hexdigest env (uid @ now_iso_later env);
          stored = get_db_session (rollback_raises env)
                     (case commit_raises env of
                        None \<Rightarrow> (Inr (), [Add, Commit], ())
                      | Some e \<Rightarrow> (Inl e, [Add, Commit], ()))
      in case stored of
        (Inl e, calls, _) \<Rightarrow> (Rejected e, Some calls)
      | (Inr _, calls, _) \<Rightarrow>
     (case initialize_modules env user of
        Inl e \<Rightarrow> (Rejected e, Some calls)
      | Inr _ \<Rightarrow>
     (case generate_welcome_package env user of
        Inl e \<Rightarrow> (Rejected e, Some calls)
      | Inr _ \<Rightarrow> (Registered uid user api_key, Some calls))))))"

section \<open>The cache decorator (caching.py)\<close>

text \<open>
  One positional argument of a cached call: the name of its class, what \<^verbatim>\<open>str(arg)\<close>
  gives, and the value itself. A keyword argument is its name with such an argument.
\<close>

record call_arg =
  arg_class :: pystr
  arg_str :: pystr
  arg_value :: pyval

fun join :: "pystr \<Rightarrow> pystr list \<Rightarrow> pystr" where
  "join sep [] = []"
| "join sep [x] = x"
| "join sep (x # y # ys) = x @ sep @ join sep (y # ys)"

text \<open>
  \<^verbatim>\<open>
  def _generate_cache_key(func, *args, **kwargs) -> str:
      key_parts = [func.__name__]
      key_parts.extend(map(str, (arg for arg in args
          if not (hasattr(arg, '__class__') and arg.__class__.__name__ == 'AsyncSession'))))
      key_parts.extend(f"{k}={v}" for k, v in sorted(kwargs.items()) if k != 'db_session')
      cache_key = f"cache:{':'.join(key_parts)}"
      return cache_key
  \<close>
  Every object has \<^verbatim>\<open>__class__\<close>. The keyword names of one call are distinct, so
  \<^verbatim>\<open>sorted\<close> orders the items by name alone. The wrapper calls
  \<^verbatim>\<open>_generate_cache_key(func, *args, **kwargs)\<close>: a keyword argument that is itself named
  \<^verbatim>\<open>func\<close> collides with the first parameter, and the call raises \<^verbatim>\<open>TypeError\<close>.
\<close>

definition generate_cache_key ::
  "pystr \<Rightarrow> call_arg list \<Rightarrow> (pystr \<times> call_arg) list \<Rightarrow> exn + pystr" where
  "generate_cache_key func_name args kwargs =
     (if ascii ''func'' \<in> set (map fst kwargs) then Inl TypeError
      else Inr (ascii ''cache:'' @
        join (ascii '':'')
          ([func_name]
           @ map arg_str (filter (\<lambda>a. arg_class a \<noteq> ascii ''AsyncSession'') args)
           @ map (\<lambda>kv. fst kv @ ascii ''='' @ arg_str (snd kv))
               (filter (\<lambda>kv. fst kv \<noteq> ascii ''db_session'') (sort_key fst kwargs)))))"

text \<open>
  The attribute \<^verbatim>\<open>redis\<close> of the object a cached method belongs to: absent
  (\<^verbatim>\<open>hasattr\<close> is false), \<^verbatim>\<open>None\<close>, or a client. The client is modelled by what it
  stores, for each key the expiry it was set with and the value, and by the
  exceptions its two calls raise: \<open>get_raises key\<close> for \<^verbatim>\<open>get(key)\<close> and
  \<open>setex_raises key expiry v\<close> for \<^verbatim>\<open>setex(key, expiry, v)\<close> (a lost connection, an
  expiry the server refuses), \<open>None\<close> when the call returns.
\<close>

datatype 'c attr = Missing | IsNone | Present 'c

type_synonym redis_store = "(pystr \<times> nat \<times> pystr) list"

record redis_client =
  stored :: redis_store
  get_raises :: "pystr \<Rightarrow> exn option"
  setex_raises :: "pystr \<Rightarrow> nat \<Rightarrow> pystr \<Rightarrow> exn option"

record cached_object =
  redis :: "redis_client attr"
  has_logger :: bool

text \<open>\<^verbatim>\<open>json.dumps\<close> and \<^verbatim>\<open>json.loads\<close>, the interpreter's.\<close>

record json_codec =
  json_dumps :: "pyval \<Rightarrow> exn + pystr"
  json_loads :: "pystr \<Rightarrow> exn + pyval"

text \<open>
  The \<^verbatim>\<open>except (TypeError, OverflowError)\<close> clause of the wrapper, entered with the
  exception \<open>e\<close> that \<^verbatim>\<open>json.dumps\<close> or \<^verbatim>\<open>setex\<close> raised: those two are caught, and the
  handler itself reads \<^verbatim>\<open>self.logger\<close>; any other exception leaves the wrapper.
\<close>

definition except_not_cached ::
  "exn \<Rightarrow> pyval \<Rightarrow> 'z cached_object_scheme \<Rightarrow> (exn + pyval) \<times> 'z cached_object_scheme" where
  "except_not_cached e result self =
     (if e = TypeError \<or> e = OverflowError
      then (if has_logger self then (Inr result, self) else (Inl AttributeError, self))
      else (Inl e, self))"

text \<open>
  The cache miss (steps 2 and 3 of the wrapper): run the function, then try to
  serialise its result and to store it under the key with the expiry.
\<close>

definition cache_miss ::
  "nat \<Rightarrow> json_codec \<Rightarrow> pystr \<Rightarrow> redis_client \<Rightarrow>
   (exn + pyval) \<Rightarrow> 'z cached_object_scheme \<Rightarrow> (exn + pyval) \<times> 'z cached_object_scheme" where
  "cache_miss expiration codec cache_key client computed self =
     (case computed of
        Inl e \<Rightarrow> (Inl e, self)
      | Inr result \<Rightarrow>
          (case json_dumps codec result of
             Inl e \<Rightarrow> except_not_cached e result self
           | Inr json_result \<Rightarrow>
               (case setex_raises client cache_key expiration json_result of
                  Some e \<Rightarrow> except_not_cached e result self
                | None \<Rightarrow>
                    (Inr result,
                     self\<lparr>redis := Present (client\<lparr>stored :=
                        AList.update cache_key (expiration, json_result) (stored client)\<rparr>)\<rparr>))))"

text \<open>
  \<^verbatim>\<open>
  async def wrapper(self, *args, **kwargs):
      if not hasattr(self, 'redis') or self.redis is None:
          return await func(self, *args, **kwargs)
      cache_key = _generate_cache_key(func, *args, **kwargs)
      cached_result = await self.redis.get(cache_key)
      if cached_result:
          return json.loads(cached_result)
      result = await func(self, *args, **kwargs)
      try:
          json_result = json.dumps(result)
          await self.redis.setex(cache_key, expiration, json_result)
      except (TypeError, OverflowError) as e:
          self.logger.warning(...)
      return result
  \<close>
  \<open>func\<close> is the wrapped coroutine: from the object and the arguments to the value it
  returns or the exception it raises. The wrapper returns that and the object, whose
  client's store it may have written. The function runs only after the key is built
  and the cache read.
\<close>

definition redis_cache ::
  "nat \<Rightarrow> json_codec \<Rightarrow> pystr \<Rightarrow>
   ('z cached_object_scheme \<Rightarrow> call_arg list \<Rightarrow> (pystr \<times> call_arg) list \<Rightarrow> exn + pyval) \<Rightarrow>
   'z cached_object_scheme \<Rightarrow> call_arg list \<Rightarrow> (pystr \<times> call_arg) list \<Rightarrow>
   (exn + pyval) \<times> 'z cached_object_scheme" where
  "redis_cache expiration codec func_name func self args kwargs =
     (case redis self of
        Missing \<Rightarrow> (func self args kwargs, self)
      | IsNone \<Rightarrow> (func self args kwargs, self)
      | Present client \<Rightarrow>
          (case generate_cache_key func_name args kwargs of
             Inl e \<Rightarrow> (Inl e, self)
           | Inr cache_key \<Rightarrow>
          (case get_raises client cache_key of
             Some e \<Rightarrow> (Inl e, self)
           | None \<Rightarrow>
          (case map_of (stored client) cache_key of
             Some (ttl, cached_result) \<Rightarrow>
               if cached_result \<noteq> []
               then (json_loads codec cached_result, self)
               else cache_miss expiration codec cache_key client (func self args kwargs) self
           | None \<Rightarrow>
               cache_miss expiration codec cache_key client (func self args kwargs) self))))"

section \<open>The ledger\<close>

text \<open>Modelled from the spec: the data of \<^verbatim>\<open>BlockchainLedger\<close> (core/blockchain.py).
  main_app.py imports the class, reads its \<^verbatim>\<open>pending_transactions\<close> and calls its
  \<^verbatim>\<open>create_block(proof=..., miner=...)\<close>, but the class itself is missing from the
  sources. Section 3 of the specification gives a transaction its sender, recipient
  and amount, and a block its index, timestamp, ordered list of transactions, proof
  value and previous-block hash; section 4.2 adds the miner identifier that a block
  seals. The field \<open>proof_value\<close> is the block's \<^verbatim>\<open>proof\<close>.\<close>

record transaction =
  sender :: pystr
  recipient :: pystr
  amount :: int

record block =
  index :: nat
  timestamp :: int
  transactions :: "transaction list"
  proof_value :: nat
  miner :: pystr
  previous_hash :: pystr

record ledger =
  chain :: "block list"
  pending_transactions :: "transaction list"

text \<open>Modelled from the spec: the constructor of \<^verbatim>\<open>BlockchainLedger\<close>, which is missing
  from the sources. A new ledger holds the genesis block and an empty pending pool
  ("N seals produce exactly N+1 blocks including the genesis block").\<close>

definition new_ledger :: "block \<Rightarrow> ledger" where
  "new_ledger genesis = \<lparr>chain = [genesis], pending_transactions = []\<rparr>"

text \<open>Modelled from the spec: adding a transaction to the pending pool of
  \<^verbatim>\<open>BlockchainLedger\<close>, which is missing from the sources ("created transiently in
  memory ... lives only in the pending pool" until a block includes it).\<close>

definition add_transaction :: "transaction \<Rightarrow> ledger \<Rightarrow> ledger" where
  "add_transaction t l = l\<lparr>pending_transactions := pending_transactions l @ [t]\<rparr>"

text \<open>Modelled from the spec: \<^verbatim>\<open>BlockchainLedger.create_block\<close>, which is missing from
  the sources. "Append-only sequence of blocks, each sealing all currently pending
  transactions plus a caller-supplied proof value and miner identifier; pending
  transactions are cleared on seal", and "each block's stored previous-hash must equal
  the hash of the prior block". The hash function \<open>H\<close> and the clock reading \<open>now\<close> are
  parameters. The specification gives the index no formula; the block's position in
  the chain is used. A ledger made by \<open>new_ledger\<close> never has an empty chain, so
  \<open>last\<close> is read in range.\<close>

definition create_block ::
  "(block \<Rightarrow> pystr) \<Rightarrow> int \<Rightarrow> nat \<Rightarrow> pystr \<Rightarrow> ledger \<Rightarrow> ledger" where
  "create_block H now prf mnr l =
     l\<lparr>chain := chain l @
          [\<lparr>index = length (chain l), timestamp = now,
            transactions = pending_transactions l, proof_value = prf, miner = mnr,
            previous_hash = H (last (chain l))\<rparr>],
       pending_transactions := []\<rparr>"

text \<open>The operations on a ledger, and a run of them from a new ledger.\<close>

datatype ledger_op = AddTransaction transaction | CreateBlock int nat pystr

fun apply_op :: "(block \<Rightarrow> pystr) \<Rightarrow> ledger \<Rightarrow> ledger_op \<Rightarrow> ledger" where
  "apply_op H l (AddTransaction t) = add_transaction t l"
| "apply_op H l (CreateBlock now prf mnr) = create_block H now prf mnr l"

definition run_ops :: "(block \<Rightarrow> pystr) \<Rightarrow> block \<Rightarrow> ledger_op list \<Rightarrow> ledger" where
  "run_ops H genesis ops = foldl (apply_op H) (new_ledger genesis) ops"

fun is_seal :: "ledger_op \<Rightarrow> bool" where
  "is_seal (CreateBlock now prf mnr) = True"
| "is_seal (AddTransaction t) = False"


text \<open>Every block but the first stores the hash of the block before it.\<close>

fun linked :: "(block \<Rightarrow> pystr) \<Rightarrow> block list \<Rightarrow> bool" where
  "linked H [] = True"
| "linked H [b] = True"
| "linked H (b # c # bs) = (previous_hash c = H b \<and> linked H (c # bs))"

section \<open>The request dispatcher (main_app.py, process_request)\<close>

text \<open>
  The members of \<^verbatim>\<open>ModuleType\<close> that main_app.py names, in the order of its registry.
  The enum's declaration is not among the sources: the members' values are the
  parameter \<open>member_value\<close>. \<^verbatim>\<open>ModuleType(x)\<close> is the enum's lookup by value, which
  raises \<^verbatim>\<open>ValueError\<close> when no member has the value \<open>x\<close>.
\<close>

datatype ModuleType =
  FARD_AI | BAITUL_HIKMA | AR_RIHLA | UMMAH_WAQF | SALAM_HEALTH | NUTRITION_HALAL | CAREER_UMMA

definition module_types :: "ModuleType list" where
  "module_types =
     [FARD_AI, BAITUL_HIKMA, AR_RIHLA, UMMAH_WAQF, SALAM_HEALTH, NUTRITION_HALAL, CAREER_UMMA]"

definition ModuleType_of :: "(ModuleType \<Rightarrow> pystr) \<Rightarrow> pyval \<Rightarrow> exn + ModuleType" where
  "ModuleType_of member_value x =
     (case find (\<lambda>m. PStr (member_value m) = x) module_types of
        None \<Rightarrow> Inl ValueError
      | Some m \<Rightarrow> Inr m)"

text \<open>
  A module's \<^verbatim>\<open>process_request(user_id, request, db_session=db_session)\<close>. The module
  classes are not among the sources, so a handler is any function of the user, the
  request and the ledger it shares with the application (\<^verbatim>\<open>module.set_ledger\<close>) to: the
  result it returns or the exception it raises, the calls it made on the session it
  was handed, and the ledger as it left it.
\<close>

type_synonym handler =
  "pystr \<Rightarrow> pydict \<Rightarrow> ledger \<Rightarrow> (exn + pydict) \<times> db_call list \<times> ledger"

text \<open>A module object: its \<^verbatim>\<open>process_request\<close> method, if it has one (\<^verbatim>\<open>hasattr\<close>).\<close>

record module_obj =
  process_request_method :: "handler option"

text \<open>
  The application object, as far as \<^verbatim>\<open>process_request\<close> reads it. \<open>attributes\<close> are the
  names of the instance's attributes: \<^verbatim>\<open>self.x\<close> for a name that is neither among them
  nor defined by the class raises \<^verbatim>\<open>AttributeError\<close>.
\<close>

record MubarakAI =
  modules :: "(ModuleType \<times> module_obj) list"
  main_ledger :: ledger
  BLOCK_CREATION_THRESHOLD :: nat
  node_identifier :: pystr
  attributes :: "string list"

text \<open>
  \<^verbatim>\<open>MubarakAI.__init__\<close>: the seven modules, a new ledger, the threshold 5, the node's
  identifier (a \<^verbatim>\<open>uuid4\<close>), and exactly the attributes the constructor assigns. The class
  has no base class and no class attributes but its methods.
\<close>

definition MubarakAI_init :: "block \<Rightarrow> pystr \<Rightarrow> (ModuleType \<Rightarrow> module_obj) \<Rightarrow> MubarakAI" where
  "MubarakAI_init genesis node_id module_of =
     \<lparr>modules = map (\<lambda>t. (t, module_of t)) module_types,
      main_ledger = new_ledger genesis,
      BLOCK_CREATION_THRESHOLD = 5,
      node_identifier = node_id,
      attributes =
        [''modules'', ''orchestrator'', ''engine'', ''Session'', ''sessions'',
         ''analytics_engine'', ''recommendation_engine'', ''notification_service'',
         ''main_ledger'', ''BLOCK_CREATION_THRESHOLD'', ''node_identifier'',
         ''block_creation_task'', ''nodes'', ''redis'']\<rparr>"

text \<open>
  What \<^verbatim>\<open>process_request\<close> gets from outside itself: the values of the enum's members,
  the answer of the language query (\<^verbatim>\<open>.scalars().first()\<close>: a value or \<^verbatim>\<open>None\<close>, or an
  exception), the database's answer to \<^verbatim>\<open>commit\<close> and \<^verbatim>\<open>rollback\<close>, the recommendation
  engine, the ledger's hash function and clock, and the draw of
  \<^verbatim>\<open>random.randint(1, 100000)\<close>.
\<close>

record env =
  member_value :: "ModuleType \<Rightarrow> pystr"
  select_language :: "pystr \<Rightarrow> exn + pyval"
  db_commit_raises :: "exn option"
  db_rollback_raises :: "exn option"
  generate_recommendations :: "pystr \<Rightarrow> pyval \<Rightarrow> pydict \<Rightarrow> exn + pyval"
  block_hash :: "block \<Rightarrow> pystr"
  clock :: int
  random_proof :: nat

text \<open>
  The two Russian messages of \<^verbatim>\<open>process_request\<close>, by code points: "module not found"
  (line 214) and "an internal server error occurred." (line 268).
\<close>

definition module_not_found :: pystr where
  "module_not_found =
     [1052, 1086, 1076, 1091, 1083, 1100, 32, 1085, 1077, 32,
      1085, 1072, 1081, 1076, 1077, 1085]"

definition internal_server_error :: pystr where
  "internal_server_error =
     [1055, 1088, 1086, 1080, 1079, 1086, 1096, 1083, 1072, 32,
      1074, 1085, 1091, 1090, 1088, 1077, 1085, 1085, 1103, 1103, 32,
      1086, 1096, 1080, 1073, 1082, 1072, 32,
      1089, 1077, 1088, 1074, 1077, 1088, 1072, 46]"

text \<open>
  Lines 208 to 219: the module the request names. \<open>Inl e\<close>: the exception \<open>e\<close> leaves
  \<^verbatim>\<open>process_request\<close>; \<open>Inr (Inl response)\<close>: the early return; \<open>Inr (Inr h)\<close>: the
  handler to delegate to.
  \<^verbatim>\<open>
  module_name = request.get("module")
  module_type = ModuleType(module_name) if module_name else ModuleType.FARD_AI
  if module_type not in self.modules:
      return {"error": module_not_found}
  module = self.modules[module_type]
  if not hasattr(module, 'process_request'):
      return {"error": f"Module {module_type.value} does not have process_request method"}
  \<close>
\<close>

definition resolve_module :: "env \<Rightarrow> MubarakAI \<Rightarrow> pydict \<Rightarrow> exn + (pydict + handler)" where
  "resolve_module ev app request =
     (let module_name = dict_get request (ascii ''module'') in
      case (if truthy module_name then ModuleType_of (member_value ev) module_name
            else Inr FARD_AI) of
        Inl e \<Rightarrow> Inl e
      | Inr module_type \<Rightarrow>
          (case map_of (modules app) module_type of
             None \<Rightarrow> Inr (Inl [(ascii ''error'', PStr module_not_found)])
           | Some m \<Rightarrow>
               (case process_request_method m of
                  None \<Rightarrow>
                    Inr (Inl [(ascii ''error'',
                               PStr (ascii ''Module '' @ member_value ev module_type
                                     @ ascii '' does not have process_request method''))])
                | Some h \<Rightarrow> Inr (Inr h))))"

text \<open>
  Lines 225 to 227: \<^verbatim>\<open>if user_db: request['user_language'] = user_db\<close>.
\<close>

definition with_language :: "pyval \<Rightarrow> pydict \<Rightarrow> pydict" where
  "with_language user_db request =
     (if truthy user_db then AList.update (ascii ''user_language'') user_db request
      else request)"

text \<open>
  Lines 235 to 240: commit when the result's \<^verbatim>\<open>success\<close> is truthy, roll back
  otherwise. The call is made, then it may raise.
\<close>

definition commit_or_rollback :: "env \<Rightarrow> pydict \<Rightarrow> (exn + unit) \<times> db_call list" where
  "commit_or_rollback ev result =
     (if truthy (dict_get result (ascii ''success''))
      then (case db_commit_raises ev of
              None \<Rightarrow> (Inr (), [Commit])
            | Some e \<Rightarrow> (Inl e, [Commit]))
      else (case db_rollback_raises ev of
              None \<Rightarrow> (Inr (), [Rollback])
            | Some e \<Rightarrow> (Inl e, [Rollback])))"

text \<open>\<^verbatim>\<open>self.logger.info(...)\<close>: the attribute is looked up on the instance first.\<close>

definition self_logger_info :: "MubarakAI \<Rightarrow> exn + unit" where
  "self_logger_info app =
     (if ''logger'' \<in> set (attributes app) then Inr () else Inl AttributeError)"

text \<open>
  Lines 249 to 251, on the ledger as the module left it:
  \<^verbatim>\<open>
  if len(self.main_ledger.pending_transactions) >= self.BLOCK_CREATION_THRESHOLD:
      self.logger.info(...)
      self.main_ledger.create_block(proof=random.randint(1, 100000), miner=self.node_identifier)
  \<close>
\<close>

definition seal_if_threshold :: "env \<Rightarrow> MubarakAI \<Rightarrow> ledger \<Rightarrow> (exn + unit) \<times> ledger" where
  "seal_if_threshold ev app l =
     (if BLOCK_CREATION_THRESHOLD app \<le> length (pending_transactions l)
      then (case self_logger_info app of
              Inl e \<Rightarrow> (Inl e, l)
            | Inr u \<Rightarrow>
                (Inr (),
                 create_block (block_hash ev) (clock ev) (random_proof ev)
                   (node_identifier app) l))
      else (Inr (), l))"

text \<open>
  One round of \<^verbatim>\<open>_periodic_block_creation_task\<close> after its sleep (lines 103 to 107), on
  the ledger as it then is. An exception ends the task.
  \<^verbatim>\<open>
  while True:
      await asyncio.sleep(600)
      if self.main_ledger.pending_transactions:
          self.logger.info(...)
          self.main_ledger.create_block(proof=random.randint(1, 100000), miner=self.node_identifier)
      else:
          self.logger.info(...)
  \<close>
\<close>

definition periodic_block_creation_step ::
  "env \<Rightarrow> MubarakAI \<Rightarrow> ledger \<Rightarrow> (exn + unit) \<times> ledger" where
  "periodic_block_creation_step ev app l =
     (if pending_transactions l \<noteq> []
      then (case self_logger_info app of
              Inl e \<Rightarrow> (Inl e, l)
            | Inr u \<Rightarrow>
                (Inr (),
                 create_block (block_hash ev) (clock ev) (random_proof ev)
                   (node_identifier app) l))
      else (case self_logger_info app of
              Inl e \<Rightarrow> (Inl e, l)
            | Inr u \<Rightarrow> (Inr (), l)))"

text \<open>
  The body of the \<^verbatim>\<open>try\<close> (lines 224 to 263): the outcome, the calls made on the
  session and the ledger afterwards. \<^verbatim>\<open>request_type\<close> was read at line 208.
\<close>

definition try_body ::
  "env \<Rightarrow> MubarakAI \<Rightarrow> handler \<Rightarrow> pystr \<Rightarrow> pydict \<Rightarrow> (exn + pydict) \<times> db_call list \<times> ledger" where
  "try_body ev app h uid request =
     (case select_language ev uid of
        Inl e \<Rightarrow> (Inl e, [Execute], main_ledger app)
      | Inr user_db \<Rightarrow>
     (case h uid (with_language user_db request) (main_ledger app) of
        (Inl e, hcalls, l1) \<Rightarrow> (Inl e, Execute # hcalls, l1)
      | (Inr result, hcalls, l1) \<Rightarrow>
     (case commit_or_rollback ev result of
        (Inl e, c) \<Rightarrow> (Inl e, Execute # hcalls @ c, l1)
      | (Inr u, c) \<Rightarrow>
     (case seal_if_threshold ev app l1 of
        (Inl e, l2) \<Rightarrow> (Inl e, Execute # hcalls @ c, l2)
      | (Inr u', l2) \<Rightarrow>
     (case generate_recommendations ev uid (dict_get request (ascii ''type'')) result of
        Inl e \<Rightarrow> (Inl e, Execute # hcalls @ c, l2)
      | Inr recs \<Rightarrow>
          (Inr (AList.update (ascii ''additional_recommendations'') recs result),
           Execute # hcalls @ c, l2))))))"

text \<open>
  The \<^verbatim>\<open>except Exception\<close> clause (lines 265 to 268) around that body:
  \<^verbatim>\<open>return {"success": False, "error": internal_server_error}\<close>.
\<close>

definition internal_error_response :: pydict where
  "internal_error_response =
     [(ascii ''success'', PBool False), (ascii ''error'', PStr internal_server_error)]"

definition try_except ::
  "env \<Rightarrow> MubarakAI \<Rightarrow> handler \<Rightarrow> pystr \<Rightarrow> pydict \<Rightarrow> (exn + pydict) \<times> db_call list \<times> ledger" where
  "try_except ev app h uid request =
     (case try_body ev app h uid request of
        (Inl e, calls, l) \<Rightarrow> (Inr internal_error_response, calls, l)
      | (Inr response, calls, l) \<Rightarrow> (Inr response, calls, l))"

text \<open>
  \<^verbatim>\<open>process_request\<close>: what the caller gets (\<open>Inl\<close>: an exception), the calls made on the
  request's database session (\<open>None\<close> when no session was opened), and the ledger
  afterwards. The \<^verbatim>\<open>try\<close> statement is the whole body of
  \<^verbatim>\<open>async with self.get_db_session() as db_session\<close>.
\<close>

definition process_request ::
  "env \<Rightarrow> MubarakAI \<Rightarrow> pystr \<Rightarrow> pydict \<Rightarrow> (exn + pydict) \<times> db_call list option \<times> ledger" where
  "process_request ev app uid request =
     (case resolve_module ev app request of
        Inl e \<Rightarrow> (Inl e, None, main_ledger app)
      | Inr (Inl response) \<Rightarrow> (Inr response, None, main_ledger app)
      | Inr (Inr h) \<Rightarrow>
          (case get_db_session (db_rollback_raises ev) (try_except ev app h uid request) of
             (outcome, calls, l) \<Rightarrow> (outcome, Some calls, l)))"

section \<open>Concrete inputs\<close>

text \<open>
  Inputs at which the definitions above are evaluated below. The enum's values here
  are sample values; none of them is \<^verbatim>\<open>"unknown_tag"\<close>.
\<close>

fun sample_member_value :: "ModuleType \<Rightarrow> pystr" where
  "sample_member_value FARD_AI = ascii ''fard_ai''"
| "sample_member_value BAITUL_HIKMA = ascii ''baitul_hikma''"
| "sample_member_value AR_RIHLA = ascii ''ar_rihla''"
| "sample_member_value UMMAH_WAQF = ascii ''ummah_waqf''"
| "sample_member_value SALAM_HEALTH = ascii ''salam_health''"
| "sample_member_value NUTRITION_HALAL = ascii ''nutrition_halal''"
| "sample_member_value CAREER_UMMA = ascii ''career_umma''"

definition sample_env :: env where
  "sample_env =
     \<lparr>member_value = sample_member_value,
      select_language = (\<lambda>uid. Inr (PStr (ascii ''ru''))),
      db_commit_raises = None,
      db_rollback_raises = None,
      generate_recommendations = (\<lambda>uid request_type result. Inr (PList [])),
      block_hash = (\<lambda>b. ascii ''hash-of-block-'' @ replicate (index b) 35),
      clock = 1700000000,
      random_proof = 4711\<rparr>"

definition sample_genesis :: block where
  "sample_genesis =
     \<lparr>index = 0, timestamp = 0, transactions = [], proof_value = 100,
      miner = [], previous_hash = ascii ''1''\<rparr>"

definition tx :: "int \<Rightarrow> transaction" where
  "tx n = \<lparr>sender = ascii ''alice'', recipient = ascii ''waqf'', amount = n\<rparr>"

text \<open>Four module handlers: one that reports success, one that records a donation in
  the ledger and reports success, one that reports failure, and one that raises.\<close>

definition succeeding_handler :: handler where
  "succeeding_handler uid request l = (Inr [(ascii ''success'', PBool True)], [], l)"

definition donating_handler :: handler where
  "donating_handler uid request l =
     (Inr [(ascii ''success'', PBool True)], [Add], add_transaction (tx 10) l)"

definition refusing_handler :: handler where
  "refusing_handler uid request l =
     (Inr [(ascii ''success'', PBool False), (ascii ''error'', PStr (ascii ''no''))], [], l)"

definition raising_handler :: handler where
  "raising_handler uid request l = (Inl (OtherError 0), [Execute], l)"

definition sample_app :: "handler \<Rightarrow> MubarakAI" where
  "sample_app h =
     MubarakAI_init sample_genesis (ascii ''node-1'')
       (\<lambda>t. \<lparr>process_request_method = Some h\<rparr>)"

text \<open>The same application after four donations have been recorded and none sealed.\<close>

definition sample_app_four_pending :: "handler \<Rightarrow> MubarakAI" where
  "sample_app_four_pending h =
     (sample_app h)\<lparr>main_ledger :=
        run_ops (block_hash sample_env) sample_genesis
          [AddTransaction (tx 1), AddTransaction (tx 2),
           AddTransaction (tx 3), AddTransaction (tx 4)]\<rparr>"




definition sample_reg_env :: reg_env where
  "sample_reg_env =
     \<lparr>now_year = 2026, now_iso = ascii ''2026-11-03T10:00:00'',
      now_iso_later = ascii ''2026-11-03T10:00:01'',
      str_of = (\<lambda>v. case v of PStr s \<Rightarrow> s | _ \<Rightarrow> []),
      str_lower = (\<lambda>s. s),
      sha256_hexdigest = (\<lambda>s. s),
      commit_raises = None, rollback_raises = None,
      initialize_modules = (\<lambda>u. Inr []),
      generate_welcome_package = (\<lambda>u. Inr PNone)\<rparr>"

definition sample_user_data :: pydict where
  "sample_user_data =
     [(ascii ''email'', PStr (ascii ''admin@example.com'')),
      (ascii ''phone'', PStr (ascii ''+70000000000'')),
      (ascii ''full_name'', PStr (ascii ''A. B.'')),
      (ascii ''birth_year'', PInt 2000),
      (ascii ''gender'', PStr (ascii ''m'')),
      (ascii ''location'', PDict [])]"

definition sample_cached_object :: cached_object where
  "sample_cached_object = \<lparr>redis = IsNone, has_logger = False\<rparr>"

definition sample_codec :: json_codec where
  "sample_codec = \<lparr>json_dumps = (\<lambda>v. Inl TypeError), json_loads = (\<lambda>s. Inr PNone)\<rparr>"

definition sample_func ::
  "cached_object \<Rightarrow> call_arg list \<Rightarrow> (pystr \<times> call_arg) list \<Rightarrow> exn + pyval" where
  "sample_func self args kwargs = Inr (PInt (int (length args)))"

section \<open>Properties of registration\<close>

lemma starts_with_iff: "starts_with xs ys \<longleftrightarrow> (\<exists>zs. ys = xs @ zs)"
  by (induction xs ys rule: starts_with.induct) auto

lemma str_contains_iff: "str_contains xs ys \<longleftrightarrow> (\<exists>ps ss. ys = ps @ xs @ ss)"
proof (induction ys)
  case Nil
  then show ?case by auto
next
  case (Cons y ys)
  show ?case
  proof
    assume "str_contains xs (y # ys)"
    then consider "starts_with xs (y # ys)" | "str_contains xs ys" by auto
    then show "\<exists>ps ss. y # ys = ps @ xs @ ss"
    proof cases
      case 1
      then obtain zs where "y # ys = xs @ zs" by (auto simp: starts_with_iff)
      then have "y # ys = [] @ xs @ zs" by simp
      then show ?thesis by blast
    next
      case 2
      then obtain ps ss where "ys = ps @ xs @ ss" using Cons.IH by blast
      then have "y # ys = (y # ps) @ xs @ ss" by simp
      then show ?thesis by blast
    qed
  next
    assume "\<exists>ps ss. y # ys = ps @ xs @ ss"
    then obtain ps ss where eq: "y # ys = ps @ xs @ ss" by blast
    show "str_contains xs (y # ys)"
    proof (cases ps)
      case Nil
      then have "starts_with xs (y # ys)" using eq by (auto simp: starts_with_iff)
      then show ?thesis by simp
    next
      case (Cons p ps')
      then have "ys = ps' @ xs @ ss" using eq by simp
      then have "str_contains xs ys" using Cons.IH by blast
      then show ?thesis by simp
    qed
  qed
qed

lemma detect_initial_roles_muslim_admin:
  assumes "detect_initial_roles lower yr user_data = Inr rs"
  shows "MUSLIM \<in> set rs"
    and "ADMIN \<in> set rs \<longleftrightarrow>
           (\<exists>mail. map_of user_data (ascii ''email'') = Some mail
                  \<and> str_in (ascii ''admin'') mail = Inr True)"
  using assms
  by (auto simp: detect_initial_roles_def dict_item_def split: sum.splits option.splits if_splits)

lemma build_user_roles:
  assumes "build_user env user_data uid = Inr user"
  shows "detect_initial_roles (str_lower env) (now_year env) user_data = Inr (roles user)"
  using assms
  by (auto simp: build_user_def split: sum.splits)

lemma register_user_roles:
  assumes "register_user env user_data = (Registered uid user key, calls)"
  shows "detect_initial_roles (str_lower env) (now_year env) user_data = Inr (roles user)"
proof -
  from assms obtain uid' where "build_user env user_data uid' = Inr user"
    by (auto simp: register_user_def Let_def split: sum.splits prod.splits)
  then show ?thesis by (rule build_user_roles)
qed

text \<open>
  C10. Whenever \<^verbatim>\<open>register_user\<close> registers a user whose supplied email address is the
  string \<open>addr\<close>, the new user's role list contains \<open>MUSLIM\<close>, and it contains \<open>ADMIN\<close>
  exactly when \<^verbatim>\<open>"admin"\<close> occurs in \<open>addr\<close> as a (case-sensitive) substring.
\<close>

theorem register_user_initial_roles:
  assumes "register_user env user_data = (Registered uid user key, calls)"
    and "map_of user_data (ascii ''email'') = Some (PStr addr)"
  shows "MUSLIM \<in> set (roles user)
       \<and> (ADMIN \<in> set (roles user) \<longleftrightarrow> (\<exists>ps ss. addr = ps @ ascii ''admin'' @ ss))"
proof -
  have det: "detect_initial_roles (str_lower env) (now_year env) user_data = Inr (roles user)"
    using assms(1) by (rule register_user_roles)
  have "MUSLIM \<in> set (roles user)"
    using det by (rule detect_initial_roles_muslim_admin(1))
  moreover have "ADMIN \<in> set (roles user) \<longleftrightarrow> str_contains (ascii ''admin'') addr"
    using detect_initial_roles_muslim_admin(2)[OF det] assms(2) by simp
  ultimately show ?thesis by (simp add: str_contains_iff)
qed

theorem register_user_initial_roles_witness:
  "\<exists>uid user key calls.
     register_user sample_reg_env sample_user_data = (Registered uid user key, calls)
   \<and> map_of sample_user_data (ascii ''email'') = Some (PStr (ascii ''admin@example.com''))
   \<and> MUSLIM \<in> set (roles user) \<and> ADMIN \<in> set (roles user)"
proof -
  obtain uid user key calls where
    reg: "register_user sample_reg_env sample_user_data = (Registered uid user key, calls)"
    by (simp add: register_user_def build_user_def detect_initial_roles_def dict_item_def
        dict_get_def dict_get_default_def get_db_session_def teacher_words_def
        investor_words_def sample_reg_env_def sample_user_data_def ascii_def Let_def)
  have mail: "map_of sample_user_data (ascii ''email'') = Some (PStr (ascii ''admin@example.com''))"
    by (simp add: sample_user_data_def ascii_def)
  have "ascii ''admin@example.com'' = [] @ ascii ''admin'' @ ascii ''@example.com''"
    by (simp add: ascii_def)
  then have sub: "\<exists>ps ss. ascii ''admin@example.com'' = ps @ ascii ''admin'' @ ss"
    by blast
  from register_user_initial_roles[OF reg mail] sub reg mail show ?thesis
    by blast
qed

section \<open>Properties of the cache decorator\<close>

text \<open>
  C8. For every wrapped function and every input, when the object has no Redis client
  (its \<^verbatim>\<open>redis\<close> attribute is absent or \<^verbatim>\<open>None\<close>), the wrapped call gives exactly what
  the function itself gives, a returned value or a raised exception alike, and leaves
  the object as it was.
\<close>

theorem redis_cache_without_client:
  assumes "redis self = Missing \<or> redis self = IsNone"
  shows "redis_cache expiration codec func_name func self args kwargs
         = (func self args kwargs, self)"
  using assms by (auto simp: redis_cache_def)

theorem redis_cache_without_client_witness:
  "redis sample_cached_object = IsNone
   \<and> redis_cache 3600 sample_codec (ascii ''get_items'') sample_func sample_cached_object
        [\<lparr>arg_class = ascii ''int'', arg_str = ascii ''7'', arg_value = PInt 7\<rparr>] []
      = (Inr (PInt 1), sample_cached_object)"
proof -
  have none: "redis sample_cached_object = IsNone"
    by (simp add: sample_cached_object_def)
  then have "redis sample_cached_object = Missing \<or> redis sample_cached_object = IsNone"
    by simp
  from redis_cache_without_client[OF this] none show ?thesis
    by (simp add: sample_func_def)
qed

section \<open>Properties of the ledger\<close>

text \<open>
  C5. Every seal of a ledger with pending pool \<open>P\<close> appends one block, that block's
  transaction list is exactly \<open>P\<close>, and the pending pool is empty right after the seal.
\<close>

theorem create_block_seals_pending:
  "(\<exists>b. chain (create_block H now prf mnr l) = chain l @ [b]
        \<and> transactions b = pending_transactions l)
   \<and> pending_transactions (create_block H now prf mnr l) = []"
  by (simp add: create_block_def)

lemma create_block_example:
  "transactions (last (chain (create_block H now prf mnr
       (add_transaction (tx 7) (add_transaction (tx 5) (new_ledger g))))))
     = [tx 5, tx 7]
   \<and> pending_transactions (create_block H now prf mnr
       (add_transaction (tx 7) (add_transaction (tx 5) (new_ledger g)))) = []"
  by (simp add: create_block_def add_transaction_def new_ledger_def)

lemma linked_snoc:
  "bs \<noteq> [] \<Longrightarrow> linked H bs \<Longrightarrow> previous_hash b = H (last bs) \<Longrightarrow> linked H (bs @ [b])"
  by (induction H bs rule: linked.induct) auto

lemma apply_op_invariant:
  assumes "chain l \<noteq> []" and "linked H (chain l)"
  shows "chain (apply_op H l x) \<noteq> [] \<and> linked H (chain (apply_op H l x))"
proof (cases x)
  case (AddTransaction t)
  with assms show ?thesis by (simp add: add_transaction_def)
next
  case (CreateBlock now pv mnr)
  have "linked H (chain l @
          [\<lparr>index = length (chain l), timestamp = now,
            transactions = pending_transactions l, proof_value = pv, miner = mnr,
            previous_hash = H (last (chain l))\<rparr>])"
    using assms by (intro linked_snoc) simp_all
  with CreateBlock show ?thesis by (simp add: create_block_def)
qed

lemma foldl_apply_op_invariant:
  "chain l \<noteq> [] \<Longrightarrow> linked H (chain l) \<Longrightarrow>
   chain (foldl (apply_op H) l ops) \<noteq> [] \<and> linked H (chain (foldl (apply_op H) l ops))"
proof (induction ops arbitrary: l)
  case Nil
  then show ?case by simp
next
  case (Cons x ops)
  from apply_op_invariant[OF Cons.prems] Cons.IH[of "apply_op H l x"]
  show ?case by simp
qed

lemma apply_op_length:
  "length (chain (apply_op H l x)) = length (chain l) + (if is_seal x then 1 else 0)"
  by (cases x) (simp_all add: add_transaction_def create_block_def)

lemma foldl_apply_op_length:
  "length (chain (foldl (apply_op H) l ops)) = length (chain l) + length (filter is_seal ops)"
  by (induction ops arbitrary: l) (simp_all add: apply_op_length)

lemma run_ops_chain_nonempty: "chain (run_ops H genesis ops) \<noteq> []"
  using foldl_apply_op_invariant[of "new_ledger genesis" H ops]
  by (simp add: run_ops_def new_ledger_def)

text \<open>
  C6. In every ledger reached from a new one by any run of operations, each block
  after the first stores the hash of the block before it, and a run with exactly \<open>N\<close>
  seals leaves exactly \<open>N + 1\<close> blocks, the genesis block included.
\<close>

theorem run_ops_linked_and_counted:
  "linked H (chain (run_ops H genesis ops))
   \<and> length (chain (run_ops H genesis ops)) = length (filter is_seal ops) + 1"
proof -
  have "linked H (chain (run_ops H genesis ops))"
    using foldl_apply_op_invariant[of "new_ledger genesis" H ops]
    by (simp add: run_ops_def new_ledger_def)
  moreover have "length (chain (run_ops H genesis ops)) = length (filter is_seal ops) + 1"
    by (simp add: run_ops_def foldl_apply_op_length new_ledger_def)
  ultimately show ?thesis by simp
qed





section \<open>Properties of the dispatcher\<close>

lemmas dispatch_defs =
  process_request_def resolve_module_def try_except_def try_body_def get_db_session_def
  commit_or_rollback_def seal_if_threshold_def self_logger_info_def with_language_def
  ModuleType_of_def module_types_def dict_get_def internal_error_response_def

lemmas sample_defs =
  sample_env_def sample_app_def sample_app_four_pending_def MubarakAI_init_def
  sample_genesis_def succeeding_handler_def donating_handler_def refusing_handler_def
  raising_handler_def tx_def run_ops_def new_ledger_def add_transaction_def ascii_def

subsection \<open>Resolving the module\<close>

lemma ModuleType_of_unknown:
  assumes "\<forall>m. PStr (mv m) \<noteq> x"
  shows "ModuleType_of mv x = Inl ValueError"
proof -
  have "find (\<lambda>m. PStr (mv m) = x) module_types = None"
    using assms by (simp add: find_None_iff)
  then show ?thesis by (simp add: ModuleType_of_def)
qed

text \<open>
  A tag that is the value of no member of the enum: \<^verbatim>\<open>ModuleType(module_name)\<close> raises,
  before the registry is consulted and outside every \<^verbatim>\<open>try\<close>.
\<close>

lemma process_request_value_error:
  assumes "truthy (dict_get request (ascii ''module''))"
    and "\<forall>m. PStr (member_value ev m) \<noteq> dict_get request (ascii ''module'')"
  shows "process_request ev app uid request = (Inl ValueError, None, main_ledger app)"
  using assms(1) ModuleType_of_unknown[OF assms(2)]
  by (simp add: process_request_def resolve_module_def)

text \<open>
  A tag that is the value of a member for which no module is registered: the
  "module not found" result, and no session.
\<close>

lemma process_request_module_not_found:
  assumes "truthy (dict_get request (ascii ''module''))"
    and "ModuleType_of (member_value ev) (dict_get request (ascii ''module'')) = Inr t"
    and "map_of (modules app) t = None"
  shows "process_request ev app uid request
         = (Inr [(ascii ''error'', PStr module_not_found)], None, main_ledger app)"
  using assms by (simp add: process_request_def resolve_module_def)

text \<open>
  C1 (the code departs from the claim). The request \<^verbatim>\<open>{"module": "unknown_tag"}\<close>, sent
  to an application with the seven modules registered, does not give the "module not
  found" result: \<^verbatim>\<open>process_request\<close> raises \<^verbatim>\<open>ValueError\<close> to its caller. No session is
  opened, so none is committed.
\<close>

theorem process_request_unknown_tag_raises:
  "process_request sample_env (sample_app succeeding_handler) (ascii ''u1'')
     [(ascii ''module'', PStr (ascii ''unknown_tag''))]
   = (Inl ValueError, None, main_ledger (sample_app succeeding_handler))"
  by (simp add: dispatch_defs sample_defs)

subsection \<open>The session\<close>

lemma get_db_session_closes:
  "fst (snd (get_db_session rb body)) \<noteq> [] \<and> last (fst (snd (get_db_session rb body))) = Close"
  by (simp add: get_db_session_def split: prod.splits sum.splits option.splits)

lemma try_except_returns:
  "\<exists>response calls l. try_except ev app h uid request = (Inr response, calls, l)"
  by (simp add: try_except_def split: prod.splits sum.splits)

lemma try_except_calls:
  "fst (snd (try_except ev app h uid request)) = fst (snd (try_body ev app h uid request))"
  by (simp add: try_except_def split: prod.splits sum.splits)

lemma try_except_ledger:
  "snd (snd (try_except ev app h uid request)) = snd (snd (try_body ev app h uid request))"
  by (simp add: try_except_def split: prod.splits sum.splits)

text \<open>
  Once a handler is resolved, the exception handler of the context manager is never
  entered: the \<^verbatim>\<open>try\<close> inside the block has already turned every exception into a
  returned result. What the context manager adds is the one \<^verbatim>\<open>close\<close>.
\<close>

lemma process_request_resolved:
  assumes "resolve_module ev app request = Inr (Inr h)"
  shows "process_request ev app uid request =
           (fst (try_except ev app h uid request),
            Some (fst (snd (try_except ev app h uid request)) @ [Close]),
            snd (snd (try_except ev app h uid request)))"
proof -
  obtain response calls l where "try_except ev app h uid request = (Inr response, calls, l)"
    using try_except_returns by blast
  with assms show ?thesis
    by (simp add: process_request_def get_db_session_def)
qed

lemma process_request_never_propagates:
  assumes "resolve_module ev app request = Inr (Inr h)"
  shows "\<exists>response. fst (process_request ev app uid request) = Inr response"
  using try_except_returns[of ev app h uid request]
  by (auto simp: process_request_resolved[OF assms])

lemma commit_or_rollback_calls:
  "snd (commit_or_rollback ev result) =
     [if truthy (dict_get result (ascii ''success'')) then Commit else Rollback]"
  by (simp add: commit_or_rollback_def split: option.splits)

lemma try_body_calls:
  assumes "select_language ev uid = Inr user_db"
    and "h uid (with_language user_db request) (main_ledger app) = (Inr result, hcalls, l1)"
  shows "fst (snd (try_body ev app h uid request)) =
           Execute # hcalls
           @ [if truthy (dict_get result (ascii ''success'')) then Commit else Rollback]"
  using assms commit_or_rollback_calls[of ev result]
  by (auto simp: try_body_def split: prod.splits sum.splits)

text \<open>
  C3. When \<^verbatim>\<open>process_request\<close> invokes a module's handler and the handler returns a
  result, the calls on the request's session are: the language query, the calls
  \<open>hcalls\<close> the handler made itself, then exactly one call by the dispatcher,
  \<^verbatim>\<open>commit\<close> if the result's success flag is true (truthy, as \<^verbatim>\<open>if result.get("success")\<close>
  reads it) and \<^verbatim>\<open>rollback\<close> if it is not, and the closing of the session. So beyond
  what the handler did, a successful invocation is committed exactly once and not
  rolled back, and an unsuccessful one is rolled back once and never committed. The
  calls are counted as made; whether the database accepts one is the database's answer.
\<close>

theorem process_request_commit_or_rollback:
  assumes "resolve_module ev app request = Inr (Inr h)"
    and "select_language ev uid = Inr user_db"
    and "h uid (with_language user_db request) (main_ledger app) = (Inr result, hcalls, l1)"
  shows "\<exists>calls. fst (snd (process_request ev app uid request)) = Some calls
         \<and> calls = Execute # hcalls
                    @ [if truthy (dict_get result (ascii ''success'')) then Commit else Rollback,
                       Close]
         \<and> count_list calls Commit = count_list hcalls Commit
              + (if truthy (dict_get result (ascii ''success'')) then 1 else 0)
         \<and> count_list calls Rollback = count_list hcalls Rollback
              + (if truthy (dict_get result (ascii ''success'')) then 0 else 1)"
proof -
  have "fst (snd (try_except ev app h uid request)) =
          Execute # hcalls
          @ [if truthy (dict_get result (ascii ''success'')) then Commit else Rollback]"
    using try_body_calls[where h = h and app = app and request = request, OF assms(2,3)]
    by (simp add: try_except_calls)
  then have "fst (snd (process_request ev app uid request)) =
          Some (Execute # hcalls
                @ [if truthy (dict_get result (ascii ''success'')) then Commit else Rollback,
                   Close])"
    by (simp add: process_request_resolved[OF assms(1)])
  then show ?thesis by simp
qed

theorem process_request_commit_or_rollback_witness:
  "fst (snd (process_request sample_env (sample_app succeeding_handler) (ascii ''u1'') []))
     = Some [Execute, Commit, Close]
   \<and> fst (snd (process_request sample_env (sample_app refusing_handler) (ascii ''u1'') []))
     = Some [Execute, Rollback, Close]"
proof -
  have lang: "select_language sample_env (ascii ''u1'') = Inr (PStr (ascii ''ru''))"
    by (simp add: sample_env_def)
  have r1: "resolve_module sample_env (sample_app succeeding_handler) []
            = Inr (Inr succeeding_handler)"
    by (simp add: dispatch_defs sample_env_def sample_app_def MubarakAI_init_def)
  have h1: "succeeding_handler (ascii ''u1'') (with_language (PStr (ascii ''ru'')) [])
              (main_ledger (sample_app succeeding_handler))
            = (Inr [(ascii ''success'', PBool True)], [],
               main_ledger (sample_app succeeding_handler))"
    by (simp add: succeeding_handler_def)
  have r2: "resolve_module sample_env (sample_app refusing_handler) []
            = Inr (Inr refusing_handler)"
    by (simp add: dispatch_defs sample_env_def sample_app_def MubarakAI_init_def)
  have h2: "refusing_handler (ascii ''u1'') (with_language (PStr (ascii ''ru'')) [])
              (main_ledger (sample_app refusing_handler))
            = (Inr [(ascii ''success'', PBool False), (ascii ''error'', PStr (ascii ''no''))],
               [], main_ledger (sample_app refusing_handler))"
    by (simp add: refusing_handler_def)
  from process_request_commit_or_rollback[where h = succeeding_handler, OF r1 lang h1]
       process_request_commit_or_rollback[where h = refusing_handler, OF r2 lang h2]
  show ?thesis by (simp add: dict_get_def ascii_def)
qed

text \<open>
  C7. Whenever a call of \<^verbatim>\<open>process_request\<close> opens a database session, the last call
  made on that session before \<^verbatim>\<open>process_request\<close> returns is \<^verbatim>\<open>close\<close>, whatever the exit
  path: success, a failure the module reports, or an exception.
\<close>

theorem process_request_closes_session:
  assumes "fst (snd (process_request ev app uid request)) = Some calls"
  shows "calls \<noteq> [] \<and> last calls = Close"
proof (cases "resolve_module ev app request")
  case (Inl e)
  with assms show ?thesis by (simp add: process_request_def)
next
  case (Inr r)
  show ?thesis
  proof (cases r)
    case (Inl response)
    with Inr assms show ?thesis by (simp add: process_request_def)
  next
    case (Inr h)
    with \<open>resolve_module ev app request = Inr r\<close> assms
    have "calls = fst (snd (get_db_session (db_rollback_raises ev)
                              (try_except ev app h uid request)))"
      by (simp add: process_request_def split: prod.splits)
    then show ?thesis
      by (simp add: get_db_session_closes)
  qed
qed

theorem process_request_closes_session_witness:
  "fst (snd (process_request sample_env (sample_app raising_handler) (ascii ''u1'') []))
     = Some [Execute, Execute, Close]
   \<and> last [Execute, Execute, Close] = Close"
proof -
  have run: "fst (snd (process_request sample_env (sample_app raising_handler) (ascii ''u1'') []))
               = Some [Execute, Execute, Close]"
    by (simp add: dispatch_defs sample_defs)
  from process_request_closes_session[OF run] run show ?thesis by simp
qed

subsection \<open>Exceptions inside the dispatch\<close>

text \<open>
  Whatever raises inside the \<^verbatim>\<open>try\<close>, the caller gets the internal-error result, and
  the only call made on the session after the point of the exception is \<^verbatim>\<open>close\<close>:
  the dispatcher's own \<^verbatim>\<open>except\<close> clause calls nothing, and the context manager's is
  not entered.
\<close>

lemma process_request_on_exception:
  assumes "resolve_module ev app request = Inr (Inr h)"
    and "try_body ev app h uid request = (Inl e, calls, l)"
  shows "process_request ev app uid request
         = (Inr internal_error_response, Some (calls @ [Close]), l)"
  using assms(2) by (simp add: process_request_resolved[OF assms(1)] try_except_def)

text \<open>
  C4 (the code departs from the claim). A handler that writes to the session and then
  raises: the caller gets the internal-error result with a false success flag and no
  exception, but the session is only closed; \<^verbatim>\<open>rollback\<close> is never called on it.
\<close>

theorem handler_exception_not_rolled_back:
  "process_request sample_env (sample_app raising_handler) (ascii ''u1'') []
   = (Inr [(ascii ''success'', PBool False), (ascii ''error'', PStr internal_server_error)],
      Some [Execute, Execute, Close], main_ledger (sample_app raising_handler))
   \<and> Rollback \<notin> set [Execute, Execute, Close]"
  by (simp add: dispatch_defs sample_defs)

subsection \<open>The threshold-triggered seal\<close>

lemma MubarakAI_init_no_logger:
  "self_logger_info ((MubarakAI_init genesis node_id module_of)\<lparr>main_ledger := l\<rparr>)
   = Inl AttributeError"
  by (simp add: self_logger_info_def MubarakAI_init_def)

text \<open>
  In an application without a \<^verbatim>\<open>logger\<close> attribute, and the constructor assigns none,
  the threshold branch ends at its first statement: the ledger is left as it was.
\<close>

lemma seal_if_threshold_without_logger:
  assumes "''logger'' \<notin> set (attributes app)"
  shows "seal_if_threshold ev app l
         = (if BLOCK_CREATION_THRESHOLD app \<le> length (pending_transactions l)
            then Inl AttributeError else Inr (), l)"
  using assms by (simp add: seal_if_threshold_def self_logger_info_def)

lemma seal_if_threshold_with_logger:
  assumes "''logger'' \<in> set (attributes app)"
    and "BLOCK_CREATION_THRESHOLD app \<le> length (pending_transactions l)"
  shows "seal_if_threshold ev app l
         = (Inr (), create_block (block_hash ev) (clock ev) (random_proof ev)
                      (node_identifier app) l)"
  using assms by (simp add: seal_if_threshold_def self_logger_info_def)

lemma process_request_never_seals:
  assumes "''logger'' \<notin> set (attributes app)"
    and "resolve_module ev app request = Inr (Inr h)"
    and "select_language ev uid = Inr user_db"
    and "h uid (with_language user_db request) (main_ledger app) = (outcome, hcalls, l1)"
  shows "snd (snd (process_request ev app uid request)) = l1"
  using assms(3,4) seal_if_threshold_without_logger[OF assms(1)]
  by (auto simp: process_request_resolved[OF assms(2)] try_except_ledger try_body_def
           split: prod.splits sum.splits if_splits)

text \<open>
  C2 (the code departs from the claim). Four transactions are pending and the handler
  records a fifth and reports success, so the pending count has reached the threshold
  of 5 when the handler returns. No block is sealed: reading \<^verbatim>\<open>self.logger\<close> raises
  \<^verbatim>\<open>AttributeError\<close>, the caller gets the internal-error result after the session has
  been committed, the chain still holds the genesis block alone and the five
  transactions are still pending.
\<close>

theorem threshold_reached_no_block_sealed:
  "process_request sample_env (sample_app_four_pending donating_handler) (ascii ''u1'')
     [(ascii ''module'', PStr (ascii ''ummah_waqf''))]
   = (Inr internal_error_response, Some [Execute, Add, Commit, Close],
      \<lparr>chain = [sample_genesis],
       pending_transactions = [tx 1, tx 2, tx 3, tx 4, tx 10]\<rparr>)
   \<and> BLOCK_CREATION_THRESHOLD (sample_app_four_pending donating_handler) = 5"
  by (simp add: dispatch_defs sample_defs)

section \<open>Interleaved sealing\<close>

text \<open>
  Each of the two sealing triggers acts on the ledger in one step: it leaves the
  ledger as it is, or it is one \<open>CreateBlock\<close> operation. Neither awaits between its
  test of the pending pool and its call of \<^verbatim>\<open>create_block\<close>.
\<close>

lemma seal_if_threshold_is_ledger_op:
  "snd (seal_if_threshold ev app l) = l
   \<or> snd (seal_if_threshold ev app l)
       = apply_op (block_hash ev) l
           (CreateBlock (clock ev) (random_proof ev) (node_identifier app))"
  by (simp add: seal_if_threshold_def split: sum.splits)

lemma periodic_step_is_ledger_op:
  "snd (periodic_block_creation_step ev app l) = l
   \<or> snd (periodic_block_creation_step ev app l)
       = apply_op (block_hash ev) l
           (CreateBlock (clock ev) (random_proof ev) (node_identifier app))"
  by (simp add: periodic_block_creation_step_def split: sum.splits)




end
